theory Spec2Isabelle
  imports Complex_Main
begin

section \<open>Values, requests and responses\<close>

text \<open>
  JavaScript values as the handlers see them after \<open>bodyParser.json()\<close>: the JSON
  values. The handlers never compute with a value; they pass it to the validator, to the
  statement parameters or to the response. \<open>undefined\<close> (a field that the body does
  not have) is \<open>None\<close> of \<open>jval option\<close>.
\<close>

datatype jval =
    JNull
  | JBool bool
  | JNum rat
  | JStr string
  | JArr "jval list"
  | JObj "(string \<times> jval) list"

text \<open>
  \<open>req.params.id\<close> (a string, for the routes with \<open>:id\<close>) and \<open>req.body\<close> (an object:
  field name to value).
\<close>

record request =
  params_id :: string
  body :: "string \<Rightarrow> jval option"

text \<open>One entry of \<open>errors.array()\<close>: the field, the message of \<open>withMessage\<close>, the value.\<close>

record validation_error =
  path :: string
  msg :: string
  val :: "jval option"

text \<open>
  What a handler sends: \<open>res.json(v)\<close>, \<open>res.send(text)\<close>, or
  \<open>res.json({ errors: errors.array() })\<close>, with the status set before (200 by default).
\<close>

datatype content =
    Json jval
  | Text string
  | Errors "validation_error list"

record response =
  status :: nat
  content :: content

text \<open>
  The effects of one handler execution, in program order: the pool gave a connection
  (\<open>Acquired\<close>) or \<open>getConnection\<close> rejected, a statement was submitted with its text
  and its parameters (and rejected), a response was sent, the connection was given back
  (\<open>conn.end()\<close>).
\<close>

datatype event =
    Acquired
  | AcquireFailed string
  | Queried string "jval option list"
  | QueryFailed string
  | Sent response
  | Released

section \<open>The libraries the handlers call\<close>

text \<open>
  The \<open>insertId\<close> of a packet is a JavaScript number or a BigInt, by the driver's version
  and its \<open>insertIdAsNumber\<close> option (the pool options of app.js do not set it).
\<close>

datatype packet_id =
    Number rat
  | BigInt int

text \<open>
  The result of \<open>conn.query\<close>: the rows of a SELECT, or the packet of an INSERT, UPDATE
  or DELETE (\<open>affectedRows\<close>, \<open>insertId\<close>, \<open>warningStatus\<close>). Rows are JSON values.
\<close>

datatype qresult =
    Rows "jval list"
  | OkPacket nat packet_id nat

text \<open>
  The database driver (mariadb) is not part of the repository: it is a parameter. \<open>'w\<close> is
  the state of the pool and of the database. \<open>getConnection\<close> rejects with an error (its
  \<open>toString()\<close>) or checks a connection out; \<open>query\<close> takes the statement text and the
  parameter array and rejects or resolves; \<open>conn_end\<close> is \<open>conn.end()\<close>.
\<close>

record 'w driver =
  getConnection :: "'w \<Rightarrow> string + 'w"
  query :: "'w \<Rightarrow> string \<Rightarrow> jval option list \<Rightarrow> (string + qresult) \<times> 'w"
  conn_end :: "'w \<Rightarrow> 'w"

text \<open>
  The format rules of express-validator are not part of the repository either: each is a
  parameter, a predicate on the value of the field (\<open>None\<close> when the body has no such
  field) that says whether the rule accepts it.
\<close>

record validators =
  isNumeric :: "jval option \<Rightarrow> bool"
  isFloat :: "jval option \<Rightarrow> bool"
  isISO8601 :: "jval option \<Rightarrow> bool"
  notEmpty :: "jval option \<Rightarrow> bool"

text \<open>
  \<open>body(field).rule().withMessage(message)\<close>: one violation when the rule rejects the
  value of the field. With \<open>.optional()\<close> the rule only applies if the field is present.
\<close>

definition check :: "(jval option \<Rightarrow> bool) \<Rightarrow> string \<Rightarrow> string \<Rightarrow> request \<Rightarrow> validation_error list" where
  "check rule field message req =
     (if rule (body req field) then []
      else [\<lparr>path = field, msg = message, val = body req field\<rparr>])"

definition check_optional :: "(jval option \<Rightarrow> bool) \<Rightarrow> string \<Rightarrow> string \<Rightarrow> request \<Rightarrow> validation_error list" where
  "check_optional rule field message req =
     (if body req field = None then [] else check rule field message req)"

text \<open>The rule arrays of \<open>app.post('/orders')\<close>, \<open>app.patch('/orders/:id')\<close> and \<open>app.put('/orders/:id')\<close>.\<close>

definition post_orders_rules :: "validators \<Rightarrow> request \<Rightarrow> validation_error list" where
  "post_orders_rules lib req =
     check (isNumeric lib) ''ord_no'' ''Order number must be numeric'' req @
     check (isFloat lib) ''purch_amt'' ''Purchase amount must be a valid number'' req @
     check (isISO8601 lib) ''ord_date'' ''Order date must be a valid date'' req @
     check (notEmpty lib) ''customer_id'' ''Customer ID is required'' req"

definition patch_orders_rules :: "validators \<Rightarrow> request \<Rightarrow> validation_error list" where
  "patch_orders_rules lib req =
     check_optional (isFloat lib) ''purch_amt'' ''Purchase amount must be a valid number'' req"

definition put_orders_rules :: "validators \<Rightarrow> request \<Rightarrow> validation_error list" where
  "put_orders_rules lib req =
     check (isNumeric lib) ''ord_no'' ''Order number must be numeric'' req @
     check (isFloat lib) ''purch_amt'' ''Purchase amount must be a valid number'' req @
     check (isISO8601 lib) ''ord_date'' ''Order date must be a valid date'' req @
     check (notEmpty lib) ''customer_id'' ''Customer ID is required'' req"

section \<open>The route handlers of app.js\<close>

text \<open>
  \<open>JSON.stringify\<close>, which \<open>res.json\<close> calls, throws on a BigInt; the error's
  \<open>toString()\<close> is this text.
\<close>

definition bigint_error :: string where
  "bigint_error = ''TypeError: Do not know how to serialize a BigInt''"

text \<open>
  \<open>res.json(rows)\<close> for whatever \<open>conn.query\<close> resolved to: the value that is sent, or
  the error that is thrown.
\<close>

fun result_json :: "qresult \<Rightarrow> string + jval" where
  "result_json (Rows rs) = Inr (JArr rs)"
| "result_json (OkPacket a (Number i) ws) =
     Inr (JObj [(''affectedRows'', JNum (of_nat a)), (''insertId'', JNum i),
                (''warningStatus'', JNum (of_nat ws))])"
| "result_json (OkPacket a (BigInt i) ws) = Inl bigint_error"

text \<open>\<open>result.insertId\<close>: \<open>undefined\<close> on an array of rows.\<close>

fun insertId :: "qresult \<Rightarrow> packet_id option" where
  "insertId (OkPacket a i ws) = Some i"
| "insertId (Rows rs) = None"

text \<open>An object literal with one \<open>message\<close> field.\<close>

definition message :: "string \<Rightarrow> jval" where
  "message m = JObj [(''message'', JStr m)]"

text \<open>
  Every handler below follows the source's statement order:
  \<open>try { conn = await pool.getConnection(); ... await conn.query(text, params); res... }
   catch (err) { res.status(500).send(err.toString()) } finally { if (conn) conn.end() }\<close>.
  The \<open>res.json\<close> of the success path is inside the \<open>try\<close>: when it throws, the
  \<open>catch\<close> block sends the 500.
\<close>

definition get_users :: "'w driver \<Rightarrow> request \<Rightarrow> 'w \<Rightarrow> event list \<times> 'w" where
  "get_users drv req w =
     (case getConnection drv w of
        Inl err \<Rightarrow> ([AcquireFailed err, Sent \<lparr>status = 500, content = Text err\<rparr>], w)
      | Inr w1 \<Rightarrow>
          (case query drv w1 ''SELECT * FROM customer LIMIT 10'' [] of
             (Inl err, w2) \<Rightarrow>
               ([Acquired, Queried ''SELECT * FROM customer LIMIT 10'' [], QueryFailed err,
                 Sent \<lparr>status = 500, content = Text err\<rparr>, Released], conn_end drv w2)
           | (Inr rows, w2) \<Rightarrow>
               ([Acquired, Queried ''SELECT * FROM customer LIMIT 10'' [],
                 Sent (case result_json rows of
                         Inr v \<Rightarrow> \<lparr>status = 200, content = Json v\<rparr>
                       | Inl err \<Rightarrow> \<lparr>status = 500, content = Text err\<rparr>),
                 Released], conn_end drv w2)))"

definition get_orders :: "'w driver \<Rightarrow> request \<Rightarrow> 'w \<Rightarrow> event list \<times> 'w" where
  "get_orders drv req w =
     (case getConnection drv w of
        Inl err \<Rightarrow> ([AcquireFailed err, Sent \<lparr>status = 500, content = Text err\<rparr>], w)
      | Inr w1 \<Rightarrow>
          (case query drv w1 ''SELECT * FROM orders'' [] of
             (Inl err, w2) \<Rightarrow>
               ([Acquired, Queried ''SELECT * FROM orders'' [], QueryFailed err,
                 Sent \<lparr>status = 500, content = Text err\<rparr>, Released], conn_end drv w2)
           | (Inr rows, w2) \<Rightarrow>
               ([Acquired, Queried ''SELECT * FROM orders'' [],
                 Sent (case result_json rows of
                         Inr v \<Rightarrow> \<lparr>status = 200, content = Json v\<rparr>
                       | Inl err \<Rightarrow> \<lparr>status = 500, content = Text err\<rparr>),
                 Released], conn_end drv w2)))"

text \<open>
  \<open>rows.length > 0\<close> is false for an empty array, and for a result that is no array
  (\<open>undefined > 0\<close>).
\<close>

definition get_order :: "'w driver \<Rightarrow> request \<Rightarrow> 'w \<Rightarrow> event list \<times> 'w" where
  "get_order drv req w =
     (case getConnection drv w of
        Inl err \<Rightarrow> ([AcquireFailed err, Sent \<lparr>status = 500, content = Text err\<rparr>], w)
      | Inr w1 \<Rightarrow>
          (case query drv w1 ''SELECT * FROM orders WHERE ord_no = ?'' [Some (JStr (params_id req))] of
             (Inl err, w2) \<Rightarrow>
               ([Acquired, Queried ''SELECT * FROM orders WHERE ord_no = ?'' [Some (JStr (params_id req))],
                 QueryFailed err,
                 Sent \<lparr>status = 500, content = Text err\<rparr>, Released], conn_end drv w2)
           | (Inr rows, w2) \<Rightarrow>
               ([Acquired, Queried ''SELECT * FROM orders WHERE ord_no = ?'' [Some (JStr (params_id req))],
                 Sent (case rows of
                         Rows (r # rs) \<Rightarrow> \<lparr>status = 200, content = Json r\<rparr>
                       | _ \<Rightarrow> \<lparr>status = 404, content = Json (message ''Order not found'')\<rparr>),
                 Released], conn_end drv w2)))"

text \<open>
  \<open>res.status(201).json({ message: 'Order created', orderId: result.insertId })\<close>: a
  field whose value is \<open>undefined\<close> is left out of the JSON, a number is sent, and on a
  BigInt \<open>res.json\<close> throws, so that the \<open>catch\<close> block answers 500 after the INSERT.
\<close>

definition post_orders :: "validators \<Rightarrow> 'w driver \<Rightarrow> request \<Rightarrow> 'w \<Rightarrow> event list \<times> 'w" where
  "post_orders lib drv req w =
     (let errors = post_orders_rules lib req in
      if errors \<noteq> [] then ([Sent \<lparr>status = 400, content = Errors errors\<rparr>], w)
      else
        let ord_no = body req ''ord_no''; purch_amt = body req ''purch_amt'';
            ord_date = body req ''ord_date''; customer_id = body req ''customer_id''
        in
        (case getConnection drv w of
           Inl err \<Rightarrow> ([AcquireFailed err, Sent \<lparr>status = 500, content = Text err\<rparr>], w)
         | Inr w1 \<Rightarrow>
             (case query drv w1
                     ''INSERT INTO orders (ord_no, purch_amt, ord_date, customer_id) VALUES (?, ?, ?, ?)''
                     [ord_no, purch_amt, ord_date, customer_id] of
                (Inl err, w2) \<Rightarrow>
                  ([Acquired,
                    Queried ''INSERT INTO orders (ord_no, purch_amt, ord_date, customer_id) VALUES (?, ?, ?, ?)''
                      [ord_no, purch_amt, ord_date, customer_id],
                    QueryFailed err,
                    Sent \<lparr>status = 500, content = Text err\<rparr>, Released], conn_end drv w2)
              | (Inr result, w2) \<Rightarrow>
                  ([Acquired,
                    Queried ''INSERT INTO orders (ord_no, purch_amt, ord_date, customer_id) VALUES (?, ?, ?, ?)''
                      [ord_no, purch_amt, ord_date, customer_id],
                    Sent (case insertId result of
                            None \<Rightarrow>
                              \<lparr>status = 201,
                               content = Json (JObj [(''message'', JStr ''Order created'')])\<rparr>
                          | Some (Number i) \<Rightarrow>
                              \<lparr>status = 201,
                               content = Json (JObj [(''message'', JStr ''Order created''),
                                                     (''orderId'', JNum i)])\<rparr>
                          | Some (BigInt i) \<Rightarrow> \<lparr>status = 500, content = Text bigint_error\<rparr>),
                    Released], conn_end drv w2))))"

definition patch_order :: "validators \<Rightarrow> 'w driver \<Rightarrow> request \<Rightarrow> 'w \<Rightarrow> event list \<times> 'w" where
  "patch_order lib drv req w =
     (let errors = patch_orders_rules lib req in
      if errors \<noteq> [] then ([Sent \<lparr>status = 400, content = Errors errors\<rparr>], w)
      else
        let purch_amt = body req ''purch_amt'' in
        (case getConnection drv w of
           Inl err \<Rightarrow> ([AcquireFailed err, Sent \<lparr>status = 500, content = Text err\<rparr>], w)
         | Inr w1 \<Rightarrow>
             (case query drv w1 ''UPDATE orders SET purch_amt = ? WHERE ord_no = ?''
                     [purch_amt, Some (JStr (params_id req))] of
                (Inl err, w2) \<Rightarrow>
                  ([Acquired,
                    Queried ''UPDATE orders SET purch_amt = ? WHERE ord_no = ?''
                      [purch_amt, Some (JStr (params_id req))],
                    QueryFailed err,
                    Sent \<lparr>status = 500, content = Text err\<rparr>, Released], conn_end drv w2)
              | (Inr result, w2) \<Rightarrow>
                  ([Acquired,
                    Queried ''UPDATE orders SET purch_amt = ? WHERE ord_no = ?''
                      [purch_amt, Some (JStr (params_id req))],
                    Sent \<lparr>status = 200, content = Json (message ''Order updated'')\<rparr>,
                    Released], conn_end drv w2))))"

definition put_order :: "validators \<Rightarrow> 'w driver \<Rightarrow> request \<Rightarrow> 'w \<Rightarrow> event list \<times> 'w" where
  "put_order lib drv req w =
     (let errors = put_orders_rules lib req in
      if errors \<noteq> [] then ([Sent \<lparr>status = 400, content = Errors errors\<rparr>], w)
      else
        let ord_no = body req ''ord_no''; purch_amt = body req ''purch_amt'';
            ord_date = body req ''ord_date''; customer_id = body req ''customer_id''
        in
        (case getConnection drv w of
           Inl err \<Rightarrow> ([AcquireFailed err, Sent \<lparr>status = 500, content = Text err\<rparr>], w)
         | Inr w1 \<Rightarrow>
             (case query drv w1
                     ''UPDATE orders SET ord_no = ?, purch_amt = ?, ord_date = ?, customer_id = ? WHERE ord_no = ?''
                     [ord_no, purch_amt, ord_date, customer_id, Some (JStr (params_id req))] of
                (Inl err, w2) \<Rightarrow>
                  ([Acquired,
                    Queried ''UPDATE orders SET ord_no = ?, purch_amt = ?, ord_date = ?, customer_id = ? WHERE ord_no = ?''
                      [ord_no, purch_amt, ord_date, customer_id, Some (JStr (params_id req))],
                    QueryFailed err,
                    Sent \<lparr>status = 500, content = Text err\<rparr>, Released], conn_end drv w2)
              | (Inr result, w2) \<Rightarrow>
                  ([Acquired,
                    Queried ''UPDATE orders SET ord_no = ?, purch_amt = ?, ord_date = ?, customer_id = ? WHERE ord_no = ?''
                      [ord_no, purch_amt, ord_date, customer_id, Some (JStr (params_id req))],
                    Sent \<lparr>status = 200, content = Json (message ''Order replaced'')\<rparr>,
                    Released], conn_end drv w2))))"

definition delete_order :: "'w driver \<Rightarrow> request \<Rightarrow> 'w \<Rightarrow> event list \<times> 'w" where
  "delete_order drv req w =
     (case getConnection drv w of
        Inl err \<Rightarrow> ([AcquireFailed err, Sent \<lparr>status = 500, content = Text err\<rparr>], w)
      | Inr w1 \<Rightarrow>
          (case query drv w1 ''DELETE FROM orders WHERE ord_no = ?'' [Some (JStr (params_id req))] of
             (Inl err, w2) \<Rightarrow>
               ([Acquired, Queried ''DELETE FROM orders WHERE ord_no = ?'' [Some (JStr (params_id req))],
                 QueryFailed err,
                 Sent \<lparr>status = 500, content = Text err\<rparr>, Released], conn_end drv w2)
           | (Inr result, w2) \<Rightarrow>
               ([Acquired, Queried ''DELETE FROM orders WHERE ord_no = ?'' [Some (JStr (params_id req))],
                 Sent \<lparr>status = 200, content = Json (message ''Order deleted'')\<rparr>,
                 Released], conn_end drv w2)))"

text \<open>The fallback of \<open>app.use\<close> for a method and path that no route matches.\<close>

definition route_not_found :: "request \<Rightarrow> 'w \<Rightarrow> event list \<times> 'w" where
  "route_not_found req w = ([Sent \<lparr>status = 404, content = Json (message ''Route not found'')\<rparr>], w)"

text \<open>The routes registered on \<open>app\<close>, and the handler of each.\<close>

datatype route =
    GET_users
  | GET_orders
  | GET_orders_id
  | POST_orders
  | PATCH_orders_id
  | PUT_orders_id
  | DELETE_orders_id
  | Unmatched

fun handle :: "validators \<Rightarrow> 'w driver \<Rightarrow> route \<Rightarrow> request \<Rightarrow> 'w \<Rightarrow> event list \<times> 'w" where
  "handle lib drv GET_users req w = get_users drv req w"
| "handle lib drv GET_orders req w = get_orders drv req w"
| "handle lib drv GET_orders_id req w = get_order drv req w"
| "handle lib drv POST_orders req w = post_orders lib drv req w"
| "handle lib drv PATCH_orders_id req w = patch_order lib drv req w"
| "handle lib drv PUT_orders_id req w = put_order lib drv req w"
| "handle lib drv DELETE_orders_id req w = delete_order drv req w"
| "handle lib drv Unmatched req w = route_not_found req w"

text \<open>The rule array that is registered with a route; the other routes have none.\<close>

fun route_rules :: "validators \<Rightarrow> route \<Rightarrow> request \<Rightarrow> validation_error list" where
  "route_rules lib POST_orders req = post_orders_rules lib req"
| "route_rules lib PATCH_orders_id req = patch_orders_rules lib req"
| "route_rules lib PUT_orders_id req = put_orders_rules lib req"
| "route_rules lib rt req = []"

text \<open>
  The one call \<open>conn.query(text, params)\<close> that is written in the handler of a route:
  its statement text and its parameter array. The fallback has none.
\<close>

fun route_query :: "route \<Rightarrow> request \<Rightarrow> (string \<times> jval option list) option" where
  "route_query GET_users req = Some (''SELECT * FROM customer LIMIT 10'', [])"
| "route_query GET_orders req = Some (''SELECT * FROM orders'', [])"
| "route_query GET_orders_id req =
     Some (''SELECT * FROM orders WHERE ord_no = ?'', [Some (JStr (params_id req))])"
| "route_query POST_orders req =
     Some (''INSERT INTO orders (ord_no, purch_amt, ord_date, customer_id) VALUES (?, ?, ?, ?)'',
           [body req ''ord_no'', body req ''purch_amt'', body req ''ord_date'', body req ''customer_id''])"
| "route_query PATCH_orders_id req =
     Some (''UPDATE orders SET purch_amt = ? WHERE ord_no = ?'',
           [body req ''purch_amt'', Some (JStr (params_id req))])"
| "route_query PUT_orders_id req =
     Some (''UPDATE orders SET ord_no = ?, purch_amt = ?, ord_date = ?, customer_id = ? WHERE ord_no = ?'',
           [body req ''ord_no'', body req ''purch_amt'', body req ''ord_date'', body req ''customer_id'',
            Some (JStr (params_id req))])"
| "route_query DELETE_orders_id req =
     Some (''DELETE FROM orders WHERE ord_no = ?'', [Some (JStr (params_id req))])"
| "route_query Unmatched req = None"

section \<open>The request-echo function\<close>

text \<open>
  The event of \<open>exports.handler\<close>: \<open>event.queryStringParameters\<close> is an object from
  parameter names to strings, or it is \<open>null\<close> or absent (\<open>None\<close>).
\<close>

record lambda_event =
  queryStringParameters :: "(string \<Rightarrow> string option) option"

datatype js_error = TypeError

text \<open>The text \<open>JSON.stringify(v)\<close>, known by the value it serialises.\<close>

datatype json_text = JSON_stringify jval

record lambda_response =
  statusCode :: nat
  response_body :: json_text

text \<open>
  Reading \<open>.keyword\<close> of \<open>null\<close> or \<open>undefined\<close> throws a TypeError, so the async
  function rejects. \<open>keyword || 'no keyword provided'\<close> takes the default for every
  falsy value: \<open>undefined\<close> and the empty string.
\<close>

definition handler :: "lambda_event \<Rightarrow> js_error + lambda_response" where
  "handler event =
     (case queryStringParameters event of
        None \<Rightarrow> Inl TypeError
      | Some qs \<Rightarrow>
          (let keyword = (case qs ''keyword'' of
                            None \<Rightarrow> ''no keyword provided''
                          | Some k \<Rightarrow> if k \<noteq> [] then k else ''no keyword provided'')
           in Inr \<lparr>statusCode = 200,
                   response_body = JSON_stringify (JObj [(''message'', JStr (''Tanvi says '' @ keyword))])\<rparr>))"

section \<open>The order of the effects\<close>

text \<open>
  Whether, in the effects of one execution, a connection is given back before the first
  response is sent.
\<close>

fun is_Sent :: "event \<Rightarrow> bool" where
  "is_Sent (Sent r) = True"
| "is_Sent e = False"

definition released_before_sent :: "event list \<Rightarrow> bool" where
  "released_before_sent es = (Released \<in> set (takeWhile (\<lambda>e. \<not> is_Sent e) es))"

section \<open>The backing store\<close>

text \<open>
  Modelled from the spec: the orders table of the relational store behind the pool (a
  MariaDB schema; neither the schema nor the engine is in the repository). The spec gives
  it the columns \<open>ord_no, purch_amt, ord_date, customer_id\<close>. A column holds a value or
  NULL (\<open>JNull\<close>).
\<close>

record order_row =
  ord_no :: jval
  purch_amt :: jval
  ord_date :: jval
  customer_id :: jval

text \<open>
  Modelled from the spec: the state of the store, which is the orders table, the customer
  table (its rows are opaque) and the number of connections that are checked out of the
  pool.
\<close>

record store =
  orders :: "order_row list"
  customer :: "jval list"
  checked_out :: nat

text \<open>
  Modelled from the spec: what the spec leaves to the schema and to the driver, as
  parameters of the store. \<open>key_eq\<close> says whether a stored order number equals a bound
  value (the path id is a string, the order number is numeric); \<open>insert_id\<close> is the
  identifier the store reports for an INSERT (the spec's "generated/assigned
  identifier"), from the table before the INSERT and the new row; \<open>insertIdAsNumber\<close>
  says whether the driver gives that identifier as a number or as a BigInt.
\<close>

record schema =
  key_eq :: "jval \<Rightarrow> jval \<Rightarrow> bool"
  insert_id :: "order_row list \<Rightarrow> order_row \<Rightarrow> int"
  insertIdAsNumber :: bool

text \<open>Modelled from the spec: the \<open>insertId\<close> of a packet, as the driver gives it.\<close>

definition packet_insertId :: "schema \<Rightarrow> int \<Rightarrow> packet_id" where
  "packet_insertId sch i = (if insertIdAsNumber sch then Number (of_int i) else BigInt i)"

text \<open>
  Modelled from the spec: a bound parameter as a column value. The spec does not say what
  is stored for a parameter that is \<open>undefined\<close>; the driver sends it as NULL.
\<close>

fun sql_value :: "jval option \<Rightarrow> jval" where
  "sql_value None = JNull"
| "sql_value (Some v) = v"

text \<open>
  Modelled from the spec: the condition \<open>WHERE ord_no = ?\<close> of the statements "by order
  number". A comparison with NULL is never true.
\<close>

definition where_ord_no :: "schema \<Rightarrow> jval option \<Rightarrow> order_row \<Rightarrow> bool" where
  "where_ord_no sch k r =
     (ord_no r \<noteq> JNull \<and> sql_value k \<noteq> JNull \<and> key_eq sch (ord_no r) (sql_value k))"

text \<open>
  Modelled from the spec: a row of \<open>SELECT * FROM orders\<close> as the driver returns it, an
  object with one field per column.
\<close>

definition row_json :: "order_row \<Rightarrow> jval" where
  "row_json r =
     JObj [(''ord_no'', ord_no r), (''purch_amt'', purch_amt r),
           (''ord_date'', ord_date r), (''customer_id'', customer_id r)]"

text \<open>
  Modelled from the spec: the meaning of the seven statements of app.js on the tables,
  which is SELECT bounded to 10 rows, SELECT all rows, SELECT by order number, INSERT,
  UPDATE of one column by order number, UPDATE of all columns keyed by the path id, and
  DELETE by order number. The store enforces no constraint. Any other text, or a
  parameter array of the wrong length, is rejected.
\<close>

definition store_query :: "schema \<Rightarrow> store \<Rightarrow> string \<Rightarrow> jval option list \<Rightarrow> (string + qresult) \<times> store" where
  "store_query sch s text ps =
     (if text = ''SELECT * FROM customer LIMIT 10'' \<and> ps = [] then
        (Inr (Rows (take 10 (customer s))), s)
      else if text = ''SELECT * FROM orders'' \<and> ps = [] then
        (Inr (Rows (map row_json (orders s))), s)
      else if text = ''SELECT * FROM orders WHERE ord_no = ?'' \<and> length ps = 1 then
        (Inr (Rows (map row_json (filter (where_ord_no sch (ps ! 0)) (orders s)))), s)
      else if text = ''INSERT INTO orders (ord_no, purch_amt, ord_date, customer_id) VALUES (?, ?, ?, ?)''
              \<and> length ps = 4 then
        (let r = \<lparr>ord_no = sql_value (ps ! 0), purch_amt = sql_value (ps ! 1),
                  ord_date = sql_value (ps ! 2), customer_id = sql_value (ps ! 3)\<rparr>
         in (Inr (OkPacket 1 (packet_insertId sch (insert_id sch (orders s) r)) 0),
             s\<lparr>orders := orders s @ [r]\<rparr>))
      else if text = ''UPDATE orders SET purch_amt = ? WHERE ord_no = ?'' \<and> length ps = 2 then
        (Inr (OkPacket (length (filter (where_ord_no sch (ps ! 1)) (orders s))) (packet_insertId sch 0) 0),
         s\<lparr>orders := map (\<lambda>r. if where_ord_no sch (ps ! 1) r
                                then r\<lparr>purch_amt := sql_value (ps ! 0)\<rparr> else r) (orders s)\<rparr>)
      else if text = ''UPDATE orders SET ord_no = ?, purch_amt = ?, ord_date = ?, customer_id = ? WHERE ord_no = ?''
              \<and> length ps = 5 then
        (Inr (OkPacket (length (filter (where_ord_no sch (ps ! 4)) (orders s))) (packet_insertId sch 0) 0),
         s\<lparr>orders := map (\<lambda>r. if where_ord_no sch (ps ! 4) r
                                then \<lparr>ord_no = sql_value (ps ! 0), purch_amt = sql_value (ps ! 1),
                                      ord_date = sql_value (ps ! 2), customer_id = sql_value (ps ! 3)\<rparr>
                                else r) (orders s)\<rparr>)
      else if text = ''DELETE FROM orders WHERE ord_no = ?'' \<and> length ps = 1 then
        (Inr (OkPacket (length (filter (where_ord_no sch (ps ! 0)) (orders s))) (packet_insertId sch 0) 0),
         s\<lparr>orders := filter (\<lambda>r. \<not> where_ord_no sch (ps ! 0) r) (orders s)\<rparr>)
      else (Inl ''SqlError: statement rejected'', s))"

text \<open>
  Modelled from the spec: the pool over the store, bounded by \<open>connectionLimit: 10\<close> of
  app.js. \<open>getConnection\<close> checks a connection out while fewer than 10 are out and
  rejects otherwise (after \<open>acquireTimeout\<close>: nothing gives one back while a single
  request waits); \<open>conn.end()\<close> gives it back.
\<close>

definition store_driver :: "schema \<Rightarrow> store driver" where
  "store_driver sch =
     \<lparr>getConnection = (\<lambda>s. if checked_out s < 10 then Inr (s\<lparr>checked_out := checked_out s + 1\<rparr>)
                            else Inl ''SqlError: retrieve connection from pool timeout after 30000ms''),
      query = store_query sch,
      conn_end = (\<lambda>s. s\<lparr>checked_out := checked_out s - 1\<rparr>)\<rparr>"

section \<open>Sample libraries, for concrete runs\<close>

text \<open>A decimal digit string as a number, if it is one.\<close>

fun digits_value :: "string \<Rightarrow> nat \<Rightarrow> nat option" where
  "digits_value [] acc = Some acc"
| "digits_value (c # cs) acc =
     (let n = (of_char c :: nat) in
      if 48 \<le> n \<and> n \<le> 57 then digits_value cs (10 * acc + (n - 48)) else None)"

fun number_of :: "jval \<Rightarrow> rat option" where
  "number_of (JNum q) = Some q"
| "number_of (JStr s) = (if s = [] then None else map_option of_nat (digits_value s 0))"
| "number_of v = None"

text \<open>
  A rule set in the manner of express-validator's: numbers and digit strings are numeric,
  a date is \<open>YYYY-MM-DD\<close>, a field that is absent or the empty string is empty.
\<close>

definition sample_rules :: validators where
  "sample_rules =
     \<lparr>isNumeric = (\<lambda>v. case v of Some x \<Rightarrow> number_of x \<noteq> None | None \<Rightarrow> False),
      isFloat = (\<lambda>v. case v of Some x \<Rightarrow> number_of x \<noteq> None | None \<Rightarrow> False),
      isISO8601 = (\<lambda>v. case v of
                     Some (JStr s) \<Rightarrow> length s = 10 \<and> s ! 4 = CHR ''-'' \<and> s ! 7 = CHR ''-''
                       \<and> digits_value (take 4 s @ take 2 (drop 5 s) @ drop 8 s) 0 \<noteq> None
                   | _ \<Rightarrow> False),
      notEmpty = (\<lambda>v. case v of None \<Rightarrow> False | Some (JStr s) \<Rightarrow> s \<noteq> [] | Some x \<Rightarrow> True)\<rparr>"

text \<open>
  A schema whose order number is an ordinary numeric column (a bound string is read as a
  number) and that generates no key: the reported identifier is 0, here as a number.
\<close>

definition plain_schema :: schema where
  "plain_schema =
     \<lparr>key_eq = (\<lambda>c v. case (number_of c, number_of v) of (Some a, Some b) \<Rightarrow> a = b | _ \<Rightarrow> False),
      insert_id = (\<lambda>rows r. 0),
      insertIdAsNumber = True\<rparr>"

text \<open>The same schema behind a driver that gives the identifier as a BigInt.\<close>

definition bigint_schema :: schema where
  "bigint_schema = plain_schema\<lparr>insertIdAsNumber := False\<rparr>"

text \<open>The sample store after the order 1001 was inserted.\<close>

definition store_with_1001 :: store where
  "store_with_1001 =
     \<lparr>orders = [\<lparr>ord_no = JNum 1000, purch_amt = JNum 20, ord_date = JStr ''2023-12-31'',
                  customer_id = JStr ''C000''\<rparr>,
                 \<lparr>ord_no = JNum 1001, purch_amt = JNum (301 / 2), ord_date = JStr ''2024-01-01'',
                  customer_id = JStr ''C001''\<rparr>],
      customer = [], checked_out = 0\<rparr>"

text \<open>A store whose pool has all 10 connections checked out.\<close>

definition exhausted_store :: store where
  "exhausted_store = \<lparr>orders = [], customer = [], checked_out = 10\<rparr>"

text \<open>A driver whose pool gives a connection and whose every statement is rejected.\<close>

definition rejecting_driver :: "unit driver" where
  "rejecting_driver =
     \<lparr>getConnection = (\<lambda>w. Inr w),
      query = (\<lambda>w text ps. (Inl ''Error: connection lost'', w)),
      conn_end = (\<lambda>w. w)\<rparr>"

text \<open>The pool of the store, with a connection on which every statement is rejected.\<close>

definition lost_connection_driver :: "store driver" where
  "lost_connection_driver =
     (store_driver plain_schema)\<lparr>query := (\<lambda>s text ps. (Inl ''Error: connection lost'', s))\<rparr>"

text \<open>A request from its path id and the fields of its body.\<close>

definition mk_request :: "string \<Rightarrow> (string \<times> jval) list \<Rightarrow> request" where
  "mk_request i kvs = \<lparr>params_id = i, body = map_of kvs\<rparr>"

definition order_1001 :: "(string \<times> jval) list" where
  "order_1001 =
     [(''ord_no'', JNum 1001), (''purch_amt'', JNum (301 / 2)),
      (''ord_date'', JStr ''2024-01-01''), (''customer_id'', JStr ''C001'')]"

definition row_1000 :: order_row where
  "row_1000 =
     \<lparr>ord_no = JNum 1000, purch_amt = JNum 20, ord_date = JStr ''2023-12-31'', customer_id = JStr ''C000''\<rparr>"

definition sample_store :: store where
  "sample_store = \<lparr>orders = [row_1000], customer = [], checked_out = 0\<rparr>"

section \<open>Facts about the store and the samples\<close>

lemma store_getConnection:
  "checked_out s < 10 \<Longrightarrow>
   getConnection (store_driver sch) s = Inr (s\<lparr>checked_out := checked_out s + 1\<rparr>)"
  by (simp add: store_driver_def)

lemma store_conn_end:
  "conn_end (store_driver sch) s = s\<lparr>checked_out := checked_out s - 1\<rparr>"
  by (simp add: store_driver_def)

lemma store_query_driver: "query (store_driver sch) = store_query sch"
  by (simp add: store_driver_def)

lemma store_select_by_ord_no:
  "store_query sch s ''SELECT * FROM orders WHERE ord_no = ?'' [k] =
     (Inr (Rows (map row_json (filter (where_ord_no sch k) (orders s)))), s)"
  by (simp add: store_query_def)

lemma store_insert:
  "store_query sch s ''INSERT INTO orders (ord_no, purch_amt, ord_date, customer_id) VALUES (?, ?, ?, ?)''
     [a, b, c, d] =
     (Inr (OkPacket 1 (packet_insertId sch (insert_id sch (orders s)
             \<lparr>ord_no = sql_value a, purch_amt = sql_value b, ord_date = sql_value c, customer_id = sql_value d\<rparr>)) 0),
      s\<lparr>orders := orders s @
          [\<lparr>ord_no = sql_value a, purch_amt = sql_value b, ord_date = sql_value c, customer_id = sql_value d\<rparr>]\<rparr>)"
  by (simp add: store_query_def Let_def)

lemma store_update_purch_amt:
  "store_query sch s ''UPDATE orders SET purch_amt = ? WHERE ord_no = ?'' [v, k] =
     (Inr (OkPacket (length (filter (where_ord_no sch k) (orders s))) (packet_insertId sch 0) 0),
      s\<lparr>orders := map (\<lambda>r. if where_ord_no sch k r then r\<lparr>purch_amt := sql_value v\<rparr> else r) (orders s)\<rparr>)"
  by (simp add: store_query_def)


lemma store_delete:
  "store_query sch s ''DELETE FROM orders WHERE ord_no = ?'' [k] =
     (Inr (OkPacket (length (filter (where_ord_no sch k) (orders s))) (packet_insertId sch 0) 0),
      s\<lparr>orders := filter (\<lambda>r. \<not> where_ord_no sch k r) (orders s)\<rparr>)"
  by (simp add: store_query_def)

lemma sample_pool: "checked_out sample_store < 10"
  by (simp add: sample_store_def)

lemma order_1001_valid: "post_orders_rules sample_rules (mk_request [] order_1001) = []"
  by (simp add: post_orders_rules_def check_def sample_rules_def mk_request_def order_1001_def)

lemma handler_without_parameters:
  "handler \<lparr>queryStringParameters = None\<rparr> = Inl TypeError"
  by (simp add: handler_def)

section \<open>Create, then read\<close>

text \<open>
  What \<open>POST /orders\<close> answers when the pool gives a connection and the INSERT resolves
  with a packet, for every driver: the \<open>orderId\<close> is the packet's \<open>insertId\<close> when that
  is a number, whatever the submitted order number is; when it is a BigInt the answer is
  500. Either way the connection is given back.
\<close>

lemma post_orders_answer:
  assumes "post_orders_rules lib req = []"
    and "getConnection drv w = Inr w1"
    and "query drv w1
           ''INSERT INTO orders (ord_no, purch_amt, ord_date, customer_id) VALUES (?, ?, ?, ?)''
           [body req ''ord_no'', body req ''purch_amt'', body req ''ord_date'', body req ''customer_id'']
         = (Inr (OkPacket a i ws), w2)"
  shows "post_orders lib drv req w =
           ([Acquired,
             Queried ''INSERT INTO orders (ord_no, purch_amt, ord_date, customer_id) VALUES (?, ?, ?, ?)''
               [body req ''ord_no'', body req ''purch_amt'', body req ''ord_date'', body req ''customer_id''],
             Sent (case i of
                     Number n \<Rightarrow>
                       \<lparr>status = 201,
                        content = Json (JObj [(''message'', JStr ''Order created''), (''orderId'', JNum n)])\<rparr>
                   | BigInt n \<Rightarrow> \<lparr>status = 500, content = Text bigint_error\<rparr>),
             Released], conn_end drv w2)"
  using assms by (cases i) (simp_all add: post_orders_def)

text \<open>
  C1 at the valid order \<open>{ord_no: 1001, purch_amt: 150.5, ord_date: "2024-01-01",
  customer_id: "C001"}\<close>, on a store whose orders table generates no key. The payload
  passes the rules and the row is inserted. With the identifier as a number the answer is
  201 with \<open>orderId: 0\<close>, and \<open>GET /orders/0\<close>, the read with the returned identifier,
  answers 404. With the identifier as a BigInt the answer is 500.
\<close>

theorem post_orders_returned_identifier:
  "post_orders_rules sample_rules (mk_request [] order_1001) = []
   \<and> post_orders sample_rules (store_driver plain_schema) (mk_request [] order_1001) sample_store =
     ([Acquired,
       Queried ''INSERT INTO orders (ord_no, purch_amt, ord_date, customer_id) VALUES (?, ?, ?, ?)''
         [Some (JNum 1001), Some (JNum (301 / 2)), Some (JStr ''2024-01-01''), Some (JStr ''C001'')],
       Sent \<lparr>status = 201,
             content = Json (JObj [(''message'', JStr ''Order created''), (''orderId'', JNum 0)])\<rparr>,
       Released], store_with_1001)
   \<and> get_order (store_driver plain_schema) (mk_request ''0'' []) store_with_1001 =
     ([Acquired,
       Queried ''SELECT * FROM orders WHERE ord_no = ?'' [Some (JStr ''0'')],
       Sent \<lparr>status = 404, content = Json (JObj [(''message'', JStr ''Order not found'')])\<rparr>,
       Released], store_with_1001)
   \<and> post_orders sample_rules (store_driver bigint_schema) (mk_request [] order_1001) sample_store =
     ([Acquired,
       Queried ''INSERT INTO orders (ord_no, purch_amt, ord_date, customer_id) VALUES (?, ?, ?, ?)''
         [Some (JNum 1001), Some (JNum (301 / 2)), Some (JStr ''2024-01-01''), Some (JStr ''C001'')],
       Sent \<lparr>status = 500, content = Text ''TypeError: Do not know how to serialize a BigInt''\<rparr>,
       Released], store_with_1001)"
proof -
  have fields: "body (mk_request [] order_1001) ''ord_no'' = Some (JNum 1001)"
    "body (mk_request [] order_1001) ''purch_amt'' = Some (JNum (301 / 2))"
    "body (mk_request [] order_1001) ''ord_date'' = Some (JStr ''2024-01-01'')"
    "body (mk_request [] order_1001) ''customer_id'' = Some (JStr ''C001'')"
    by (simp_all add: mk_request_def order_1001_def)
  have conn: "getConnection (store_driver sch) sample_store =
      Inr (sample_store\<lparr>checked_out := checked_out sample_store + 1\<rparr>)" for sch
    by (rule store_getConnection [OF sample_pool])
  have ins: "query (store_driver sch) (sample_store\<lparr>checked_out := checked_out sample_store + 1\<rparr>)
      ''INSERT INTO orders (ord_no, purch_amt, ord_date, customer_id) VALUES (?, ?, ?, ?)''
      [body (mk_request [] order_1001) ''ord_no'', body (mk_request [] order_1001) ''purch_amt'',
       body (mk_request [] order_1001) ''ord_date'', body (mk_request [] order_1001) ''customer_id''] =
      (Inr (OkPacket 1 (packet_insertId sch (insert_id sch (orders sample_store)
              \<lparr>ord_no = JNum 1001, purch_amt = JNum (301 / 2), ord_date = JStr ''2024-01-01'',
               customer_id = JStr ''C001''\<rparr>)) 0),
       store_with_1001\<lparr>checked_out := 1\<rparr>)" for sch
    by (simp add: fields store_query_driver store_insert sample_store_def row_1000_def
        store_with_1001_def)
  have ended: "conn_end (store_driver sch) (store_with_1001\<lparr>checked_out := Suc 0\<rparr>) = store_with_1001" for sch
    by (simp add: store_conn_end store_with_1001_def)
  have ids: "packet_insertId plain_schema (insert_id plain_schema rows r) = Number 0"
    "packet_insertId bigint_schema (insert_id bigint_schema rows r) = BigInt 0" for rows r
    by (simp_all add: packet_insertId_def bigint_schema_def plain_schema_def)
  have number: "post_orders sample_rules (store_driver plain_schema) (mk_request [] order_1001) sample_store =
     ([Acquired,
       Queried ''INSERT INTO orders (ord_no, purch_amt, ord_date, customer_id) VALUES (?, ?, ?, ?)''
         [Some (JNum 1001), Some (JNum (301 / 2)), Some (JStr ''2024-01-01''), Some (JStr ''C001'')],
       Sent \<lparr>status = 201,
             content = Json (JObj [(''message'', JStr ''Order created''), (''orderId'', JNum 0)])\<rparr>,
       Released], store_with_1001)"
    using post_orders_answer [OF order_1001_valid conn ins, of plain_schema]
    by (simp add: fields ended ids)
  have bigint: "post_orders sample_rules (store_driver bigint_schema) (mk_request [] order_1001) sample_store =
     ([Acquired,
       Queried ''INSERT INTO orders (ord_no, purch_amt, ord_date, customer_id) VALUES (?, ?, ?, ?)''
         [Some (JNum 1001), Some (JNum (301 / 2)), Some (JStr ''2024-01-01''), Some (JStr ''C001'')],
       Sent \<lparr>status = 500, content = Text ''TypeError: Do not know how to serialize a BigInt''\<rparr>,
       Released], store_with_1001)"
    using post_orders_answer [OF order_1001_valid conn ins, of bigint_schema]
    by (simp add: fields ended ids bigint_error_def)
  have read: "get_order (store_driver plain_schema) (mk_request ''0'' []) store_with_1001 =
     ([Acquired,
       Queried ''SELECT * FROM orders WHERE ord_no = ?'' [Some (JStr ''0'')],
       Sent \<lparr>status = 404, content = Json (JObj [(''message'', JStr ''Order not found'')])\<rparr>,
       Released], store_with_1001)"
    by (simp add: get_order_def store_driver_def store_select_by_ord_no where_ord_no_def message_def
        plain_schema_def mk_request_def store_with_1001_def)
  from order_1001_valid number read bigint show ?thesis by simp
qed

section \<open>Statement texts\<close>

lemma queried_cases:
  assumes "Queried text ps \<in> set (fst (handle lib drv rt req w))"
  shows "(rt = GET_users \<and> text = ''SELECT * FROM customer LIMIT 10'' \<and> ps = [])
       \<or> (rt = GET_orders \<and> text = ''SELECT * FROM orders'' \<and> ps = [])
       \<or> (rt = GET_orders_id \<and> text = ''SELECT * FROM orders WHERE ord_no = ?''
            \<and> ps = [Some (JStr (params_id req))])
       \<or> (rt = POST_orders
            \<and> text = ''INSERT INTO orders (ord_no, purch_amt, ord_date, customer_id) VALUES (?, ?, ?, ?)''
            \<and> ps = [body req ''ord_no'', body req ''purch_amt'', body req ''ord_date'', body req ''customer_id''])
       \<or> (rt = PATCH_orders_id \<and> text = ''UPDATE orders SET purch_amt = ? WHERE ord_no = ?''
            \<and> ps = [body req ''purch_amt'', Some (JStr (params_id req))])
       \<or> (rt = PUT_orders_id
            \<and> text = ''UPDATE orders SET ord_no = ?, purch_amt = ?, ord_date = ?, customer_id = ? WHERE ord_no = ?''
            \<and> ps = [body req ''ord_no'', body req ''purch_amt'', body req ''ord_date'',
                     body req ''customer_id'', Some (JStr (params_id req))])
       \<or> (rt = DELETE_orders_id \<and> text = ''DELETE FROM orders WHERE ord_no = ?''
            \<and> ps = [Some (JStr (params_id req))])"
proof (cases rt)
  case GET_users
  with assms show ?thesis
    by (auto simp: get_users_def split: sum.splits prod.splits)
next
  case GET_orders
  with assms show ?thesis
    by (auto simp: get_orders_def split: sum.splits prod.splits)
next
  case GET_orders_id
  with assms show ?thesis
    by (auto simp: get_order_def split: sum.splits prod.splits)
next
  case POST_orders
  with assms show ?thesis
    by (auto simp: post_orders_def Let_def split: sum.splits prod.splits if_splits)
next
  case PATCH_orders_id
  with assms show ?thesis
    by (auto simp: patch_order_def Let_def split: sum.splits prod.splits if_splits)
next
  case PUT_orders_id
  with assms show ?thesis
    by (auto simp: put_order_def Let_def split: sum.splits prod.splits if_splits)
next
  case DELETE_orders_id
  with assms show ?thesis
    by (auto simp: delete_order_def split: sum.splits prod.splits)
next
  case Unmatched
  with assms show ?thesis
    by (simp add: route_not_found_def)
qed

text \<open>
  C2. Whatever two executions of one handler submit to the database, on any two requests,
  rule sets, drivers and states, the statement texts are equal, and the text is one of
  seven constants; every statement parameter is the path id or the value of a body
  field, passed as it came.
\<close>

theorem statement_text_constant:
  assumes "Queried text ps \<in> set (fst (handle lib drv rt req w))"
    and "Queried text' ps' \<in> set (fst (handle lib' drv' rt req' w'))"
  shows "text' = text
       \<and> text \<in> {''SELECT * FROM customer LIMIT 10'',
                  ''SELECT * FROM orders'',
                  ''SELECT * FROM orders WHERE ord_no = ?'',
                  ''INSERT INTO orders (ord_no, purch_amt, ord_date, customer_id) VALUES (?, ?, ?, ?)'',
                  ''UPDATE orders SET purch_amt = ? WHERE ord_no = ?'',
                  ''UPDATE orders SET ord_no = ?, purch_amt = ?, ord_date = ?, customer_id = ? WHERE ord_no = ?'',
                  ''DELETE FROM orders WHERE ord_no = ?''}
       \<and> set ps \<subseteq> insert (Some (JStr (params_id req))) (range (body req))"
proof -
  note a = queried_cases [OF assms(1)]
  note b = queried_cases [OF assms(2)]
  have 1: "text' = text"
    using a b by (cases rt) simp_all
  have 2: "text \<in> {''SELECT * FROM customer LIMIT 10'',
                  ''SELECT * FROM orders'',
                  ''SELECT * FROM orders WHERE ord_no = ?'',
                  ''INSERT INTO orders (ord_no, purch_amt, ord_date, customer_id) VALUES (?, ?, ?, ?)'',
                  ''UPDATE orders SET purch_amt = ? WHERE ord_no = ?'',
                  ''UPDATE orders SET ord_no = ?, purch_amt = ?, ord_date = ?, customer_id = ? WHERE ord_no = ?'',
                  ''DELETE FROM orders WHERE ord_no = ?''}"
    using a by (cases rt) simp_all
  have 3: "set ps \<subseteq> insert (Some (JStr (params_id req))) (range (body req))"
    using a by (cases rt) auto
  from 1 2 3 show ?thesis by blast
qed

text \<open>Two reads by id, one of them with SQL in the path id: the same text, the id a parameter.\<close>

theorem statement_text_constant_witness:
  "Queried ''SELECT * FROM orders WHERE ord_no = ?'' [Some (JStr ''1000'')]
     \<in> set (fst (handle sample_rules (store_driver plain_schema) GET_orders_id (mk_request ''1000'' []) sample_store))
   \<and> Queried ''SELECT * FROM orders WHERE ord_no = ?'' [Some (JStr ''1 OR 1=1'')]
     \<in> set (fst (handle sample_rules rejecting_driver GET_orders_id (mk_request ''1 OR 1=1'' []) ()))
   \<and> set [Some (JStr ''1 OR 1=1'')]
       \<subseteq> insert (Some (JStr (params_id (mk_request ''1 OR 1=1'' [])))) (range (body (mk_request ''1 OR 1=1'' [])))"
proof -
  have a: "Queried ''SELECT * FROM orders WHERE ord_no = ?'' [Some (JStr ''1000'')]
     \<in> set (fst (handle sample_rules (store_driver plain_schema) GET_orders_id (mk_request ''1000'' []) sample_store))"
    by (simp add: get_order_def store_getConnection sample_pool store_query_driver
        store_select_by_ord_no mk_request_def)
  have b: "Queried ''SELECT * FROM orders WHERE ord_no = ?'' [Some (JStr ''1 OR 1=1'')]
     \<in> set (fst (handle sample_rules rejecting_driver GET_orders_id (mk_request ''1 OR 1=1'' []) ()))"
    by (simp add: get_order_def rejecting_driver_def mk_request_def)
  from statement_text_constant [OF b a] a b show ?thesis by blast
qed

section \<open>Release of the connection\<close>

lemma log_shapes:
  "(\<exists>r. fst (handle lib drv rt req w) = [Sent r])
   \<or> (\<exists>e. fst (handle lib drv rt req w) = [AcquireFailed e, Sent \<lparr>status = 500, content = Text e\<rparr>])
   \<or> (\<exists>text ps e. fst (handle lib drv rt req w) =
         [Acquired, Queried text ps, QueryFailed e, Sent \<lparr>status = 500, content = Text e\<rparr>, Released])
   \<or> (\<exists>text ps r. fst (handle lib drv rt req w) = [Acquired, Queried text ps, Sent r, Released])"
proof (cases rt)
  case GET_users
  then show ?thesis
    by (simp add: get_users_def split: sum.splits prod.splits)
next
  case GET_orders
  then show ?thesis
    by (simp add: get_orders_def split: sum.splits prod.splits)
next
  case GET_orders_id
  then show ?thesis
    by (simp add: get_order_def split: sum.splits prod.splits)
next
  case POST_orders
  then show ?thesis
    by (simp add: post_orders_def Let_def split: sum.splits prod.splits)
next
  case PATCH_orders_id
  then show ?thesis
    by (simp add: patch_order_def Let_def split: sum.splits prod.splits)
next
  case PUT_orders_id
  then show ?thesis
    by (simp add: put_order_def Let_def split: sum.splits prod.splits)
next
  case DELETE_orders_id
  then show ?thesis
    by (simp add: delete_order_def split: sum.splits prod.splits)
next
  case Unmatched
  then show ?thesis
    by (simp add: route_not_found_def)
qed

lemma handle_without_pool:
  assumes "route_rules lib rt req \<noteq> [] \<or> route_query rt req = None"
  shows "\<exists>r. handle lib drv rt req w = ([Sent r], w)"
  using assms
  by (cases rt) (simp_all add: post_orders_def patch_order_def put_order_def route_not_found_def)

lemma handle_acquire_rejected:
  assumes "route_rules lib rt req = []"
    and "route_query rt req = Some (text, ps)"
    and "getConnection drv w = Inl e"
  shows "handle lib drv rt req w = ([AcquireFailed e, Sent \<lparr>status = 500, content = Text e\<rparr>], w)"
  using assms
  by (cases rt)
    (simp_all add: get_users_def get_orders_def get_order_def post_orders_def patch_order_def
      put_order_def delete_order_def)

lemma handle_query_rejected:
  assumes "route_rules lib rt req = []"
    and "route_query rt req = Some (text, ps)"
    and "getConnection drv w = Inr w1"
    and "query drv w1 text ps = (Inl e, w2)"
  shows "handle lib drv rt req w =
           ([Acquired, Queried text ps, QueryFailed e,
             Sent \<lparr>status = 500, content = Text e\<rparr>, Released], conn_end drv w2)"
  using assms
  by (cases rt)
    (auto simp: get_users_def get_orders_def get_order_def post_orders_def patch_order_def
      put_order_def delete_order_def)

lemma handle_query_resolved:
  assumes "route_rules lib rt req = []"
    and "route_query rt req = Some (text, ps)"
    and "getConnection drv w = Inr w1"
    and "query drv w1 text ps = (Inr res, w2)"
  shows "\<exists>r. handle lib drv rt req w = ([Acquired, Queried text ps, Sent r, Released], conn_end drv w2)"
  using assms
  by (cases rt)
    (auto simp: get_users_def get_orders_def get_order_def post_orders_def patch_order_def
      put_order_def delete_order_def)

lemma handle_release_order:
  assumes "handle lib drv rt req w = (tr, w')"
  shows "count_list tr Released = count_list tr Acquired \<and> count_list tr Acquired \<le> 1
       \<and> \<not> released_before_sent tr
       \<and> (Released \<in> set tr \<longrightarrow> (\<exists>pre r. tr = pre @ [Sent r, Released]))"
proof -
  have tr: "tr = fst (handle lib drv rt req w)"
    using assms by simp
  show ?thesis
    using log_shapes [of lib drv rt req w] unfolding tr
    by (elim disjE exE) (simp_all add: released_before_sent_def)
qed

text \<open>
  C3, as the code has it. For every route, request, rule set, driver and state: when the
  request passes the route's rules and \<open>getConnection\<close> rejects, the handler sends 500
  with the error text, and the state is as it was (there is nothing to release); when
  the pool gives a connection and \<open>conn.query\<close> rejects the route's statement, the
  handler sends 500 with the error text and then gives the connection back, once, so
  that the final state is \<open>conn.end()\<close> of the state the statement left; when the
  statement resolves, a response is sent and then the connection is given back in the
  same way. A request that fails the rules, or matches no route, is answered without
  the pool. In every execution a connection is given back as often as one was acquired,
  at most once, and never before the response is sent: the release is the last effect.
\<close>

theorem released_once_after_response:
  assumes "handle lib drv rt req w = (tr, w')"
  shows "(route_rules lib rt req = [] \<longrightarrow> route_query rt req = Some (text, ps) \<longrightarrow>
            (getConnection drv w = Inl e \<longrightarrow>
               tr = [AcquireFailed e, Sent \<lparr>status = 500, content = Text e\<rparr>] \<and> w' = w)
          \<and> (getConnection drv w = Inr w1 \<longrightarrow> query drv w1 text ps = (Inl e, w2) \<longrightarrow>
               tr = [Acquired, Queried text ps, QueryFailed e,
                     Sent \<lparr>status = 500, content = Text e\<rparr>, Released]
               \<and> w' = conn_end drv w2)
          \<and> (getConnection drv w = Inr w1 \<longrightarrow> query drv w1 text ps = (Inr res, w2) \<longrightarrow>
               (\<exists>r. tr = [Acquired, Queried text ps, Sent r, Released]) \<and> w' = conn_end drv w2))
       \<and> (route_rules lib rt req \<noteq> [] \<or> route_query rt req = None \<longrightarrow>
            (\<exists>r. tr = [Sent r]) \<and> w' = w)
       \<and> count_list tr Released = count_list tr Acquired
       \<and> count_list tr Acquired \<le> 1
       \<and> \<not> released_before_sent tr
       \<and> (Released \<in> set tr \<longrightarrow> (\<exists>pre r. tr = pre @ [Sent r, Released]))"
proof -
  have 1: "tr = [AcquireFailed e, Sent \<lparr>status = 500, content = Text e\<rparr>] \<and> w' = w"
    if "route_rules lib rt req = []" "route_query rt req = Some (text, ps)"
      "getConnection drv w = Inl e"
    using handle_acquire_rejected [OF that] assms by simp
  have 2: "tr = [Acquired, Queried text ps, QueryFailed e,
                 Sent \<lparr>status = 500, content = Text e\<rparr>, Released] \<and> w' = conn_end drv w2"
    if "route_rules lib rt req = []" "route_query rt req = Some (text, ps)"
      "getConnection drv w = Inr w1" "query drv w1 text ps = (Inl e, w2)"
    using handle_query_rejected [OF that] assms by simp
  have 3: "(\<exists>r. tr = [Acquired, Queried text ps, Sent r, Released]) \<and> w' = conn_end drv w2"
    if "route_rules lib rt req = []" "route_query rt req = Some (text, ps)"
      "getConnection drv w = Inr w1" "query drv w1 text ps = (Inr res, w2)"
    using handle_query_resolved [OF that] assms by auto
  have 4: "(\<exists>r. tr = [Sent r]) \<and> w' = w"
    if "route_rules lib rt req \<noteq> [] \<or> route_query rt req = None"
    using handle_without_pool [OF that, of drv w] assms by auto
  from 1 2 3 4 handle_release_order [OF assms] show ?thesis
    by blast
qed

text \<open>
  \<open>GET /users\<close> on a connection that rejects the statement: 500, and the connection is
  back in the pool. \<open>DELETE /orders/1000\<close> on a pool with no free connection: 500, and
  nothing is released.
\<close>

theorem released_once_after_response_witness:
  "getConnection lost_connection_driver sample_store = Inr (sample_store\<lparr>checked_out := 1\<rparr>)
   \<and> query lost_connection_driver (sample_store\<lparr>checked_out := 1\<rparr>)
        ''SELECT * FROM customer LIMIT 10'' [] =
       (Inl ''Error: connection lost'', sample_store\<lparr>checked_out := 1\<rparr>)
   \<and> handle sample_rules lost_connection_driver GET_users (mk_request [] []) sample_store =
       ([Acquired, Queried ''SELECT * FROM customer LIMIT 10'' [], QueryFailed ''Error: connection lost'',
         Sent \<lparr>status = 500, content = Text ''Error: connection lost''\<rparr>, Released],
        sample_store)
   \<and> getConnection (store_driver plain_schema) exhausted_store =
       Inl ''SqlError: retrieve connection from pool timeout after 30000ms''
   \<and> handle sample_rules (store_driver plain_schema) DELETE_orders_id (mk_request ''1000'' [])
        exhausted_store =
       ([AcquireFailed ''SqlError: retrieve connection from pool timeout after 30000ms'',
         Sent \<lparr>status = 500,
               content = Text ''SqlError: retrieve connection from pool timeout after 30000ms''\<rparr>],
        exhausted_store)"
proof -
  have c: "getConnection lost_connection_driver sample_store = Inr (sample_store\<lparr>checked_out := 1\<rparr>)"
    by (simp add: lost_connection_driver_def store_driver_def sample_store_def)
  have q: "query lost_connection_driver (sample_store\<lparr>checked_out := 1\<rparr>)
        ''SELECT * FROM customer LIMIT 10'' [] =
       (Inl ''Error: connection lost'', sample_store\<lparr>checked_out := 1\<rparr>)"
    by (simp add: lost_connection_driver_def)
  have x: "getConnection (store_driver plain_schema) exhausted_store =
       Inl ''SqlError: retrieve connection from pool timeout after 30000ms''"
    by (simp add: store_driver_def exhausted_store_def)
  have e: "conn_end lost_connection_driver (sample_store\<lparr>checked_out := 1\<rparr>) = sample_store"
    by (simp add: lost_connection_driver_def store_driver_def sample_store_def)
  obtain tr1 w1 where h1:
    "handle sample_rules lost_connection_driver GET_users (mk_request [] []) sample_store = (tr1, w1)"
    by (cases "handle sample_rules lost_connection_driver GET_users (mk_request [] []) sample_store")
  obtain tr2 w2 where h2:
    "handle sample_rules (store_driver plain_schema) DELETE_orders_id (mk_request ''1000'' [])
       exhausted_store = (tr2, w2)"
    by (cases "handle sample_rules (store_driver plain_schema) DELETE_orders_id (mk_request ''1000'' [])
       exhausted_store")
  have a: "tr1 = [Acquired, Queried ''SELECT * FROM customer LIMIT 10'' [],
                  QueryFailed ''Error: connection lost'',
                  Sent \<lparr>status = 500, content = Text ''Error: connection lost''\<rparr>, Released]
           \<and> w1 = sample_store"
    using released_once_after_response [OF h1, of "''SELECT * FROM customer LIMIT 10''" "[]"
        "''Error: connection lost''" "sample_store\<lparr>checked_out := 1\<rparr>"
        "sample_store\<lparr>checked_out := 1\<rparr>"] c q e
    by simp
  have b: "tr2 = [AcquireFailed ''SqlError: retrieve connection from pool timeout after 30000ms'',
                  Sent \<lparr>status = 500,
                        content = Text ''SqlError: retrieve connection from pool timeout after 30000ms''\<rparr>]
           \<and> w2 = exhausted_store"
    using released_once_after_response [OF h2, of "''DELETE FROM orders WHERE ord_no = ?''"
        "[Some (JStr ''1000'')]" "''SqlError: retrieve connection from pool timeout after 30000ms''"] x
    by (simp add: mk_request_def)
  from a b c q x h1 h2 show ?thesis by simp
qed

text \<open>
  The release does not come before the 500 response: in that execution the response is
  sent in the \<open>catch\<close> block and the connection is given back in the \<open>finally\<close> block
  after it.
\<close>

theorem released_before_500_counterexample:
  "fst (handle sample_rules rejecting_driver GET_users (mk_request [] []) ()) =
     [Acquired, Queried ''SELECT * FROM customer LIMIT 10'' [], QueryFailed ''Error: connection lost'',
      Sent \<lparr>status = 500, content = Text ''Error: connection lost''\<rparr>, Released]
   \<and> \<not> released_before_sent (fst (handle sample_rules rejecting_driver GET_users (mk_request [] []) ()))"
  by (simp add: get_users_def rejecting_driver_def released_before_sent_def)

section \<open>Validation before the pool\<close>

lemma check_path: "\<not> rule (body req f) \<Longrightarrow> f \<in> path ` set (check rule f m req)"
  by (simp add: check_def)

text \<open>
  C4. When the body of \<open>POST /orders\<close> has no \<open>customer_id\<close> (and the non-empty rule
  rejects an absent field), or the numeric rule rejects its \<open>ord_no\<close>, the handler
  answers 400 with the list of violations, which names \<open>customer_id\<close>, respectively
  \<open>ord_no\<close>; that response is its only effect: no connection is acquired, no statement
  is submitted, the state is unchanged.
\<close>

theorem post_orders_rejects_before_pool:
  assumes "(body req ''customer_id'' = None \<and> \<not> notEmpty lib None)
           \<or> \<not> isNumeric lib (body req ''ord_no'')"
  shows "post_orders lib drv req w =
           ([Sent \<lparr>status = 400, content = Errors (post_orders_rules lib req)\<rparr>], w)
         \<and> (body req ''customer_id'' = None \<and> \<not> notEmpty lib None
              \<longrightarrow> ''customer_id'' \<in> path ` set (post_orders_rules lib req))
         \<and> (\<not> isNumeric lib (body req ''ord_no'')
              \<longrightarrow> ''ord_no'' \<in> path ` set (post_orders_rules lib req))"
proof -
  have a: "\<not> isNumeric lib (body req ''ord_no'') \<Longrightarrow> ''ord_no'' \<in> path ` set (post_orders_rules lib req)"
    using check_path [of "isNumeric lib" req "''ord_no''"] by (auto simp: post_orders_rules_def)
  have b: "body req ''customer_id'' = None \<Longrightarrow> \<not> notEmpty lib None
           \<Longrightarrow> ''customer_id'' \<in> path ` set (post_orders_rules lib req)"
    using check_path [of "notEmpty lib" req "''customer_id''"] by (auto simp: post_orders_rules_def)
  from assms a b have "post_orders_rules lib req \<noteq> []" by auto
  then have "post_orders lib drv req w =
           ([Sent \<lparr>status = 400, content = Errors (post_orders_rules lib req)\<rparr>], w)"
    by (simp add: post_orders_def Let_def)
  with a b show ?thesis by blast
qed

text \<open>A body with \<open>ord_no: "abc"\<close> and no \<open>customer_id\<close>.\<close>

theorem post_orders_rejects_before_pool_witness:
  "body (mk_request [] [(''ord_no'', JStr ''abc''), (''purch_amt'', JNum 5)]) ''customer_id'' = None
   \<and> \<not> notEmpty sample_rules None
   \<and> \<not> isNumeric sample_rules (body (mk_request [] [(''ord_no'', JStr ''abc''), (''purch_amt'', JNum 5)]) ''ord_no'')
   \<and> post_orders sample_rules (store_driver plain_schema)
        (mk_request [] [(''ord_no'', JStr ''abc''), (''purch_amt'', JNum 5)]) sample_store =
       ([Sent \<lparr>status = 400,
               content = Errors
                 [\<lparr>path = ''ord_no'', msg = ''Order number must be numeric'', val = Some (JStr ''abc'')\<rparr>,
                  \<lparr>path = ''ord_date'', msg = ''Order date must be a valid date'', val = None\<rparr>,
                  \<lparr>path = ''customer_id'', msg = ''Customer ID is required'', val = None\<rparr>]\<rparr>],
        sample_store)"
proof -
  have h: "body (mk_request [] [(''ord_no'', JStr ''abc''), (''purch_amt'', JNum 5)]) ''customer_id'' = None
      \<and> \<not> notEmpty sample_rules None"
    by (simp add: mk_request_def sample_rules_def)
  have n: "\<not> isNumeric sample_rules (body (mk_request [] [(''ord_no'', JStr ''abc''), (''purch_amt'', JNum 5)]) ''ord_no'')"
    by (simp add: mk_request_def sample_rules_def)
  have r: "post_orders_rules sample_rules (mk_request [] [(''ord_no'', JStr ''abc''), (''purch_amt'', JNum 5)]) =
      [\<lparr>path = ''ord_no'', msg = ''Order number must be numeric'', val = Some (JStr ''abc'')\<rparr>,
       \<lparr>path = ''ord_date'', msg = ''Order date must be a valid date'', val = None\<rparr>,
       \<lparr>path = ''customer_id'', msg = ''Customer ID is required'', val = None\<rparr>]"
    by (simp add: post_orders_rules_def check_def mk_request_def sample_rules_def)
  show ?thesis
    using post_orders_rejects_before_pool
      [of "mk_request [] [(''ord_no'', JStr ''abc''), (''purch_amt'', JNum 5)]" sample_rules
        "store_driver plain_schema" sample_store, OF disjI1 [OF h]] h n
    by (simp add: r)
qed

section \<open>Read by id\<close>

text \<open>
  C5. When the pool gives a connection and the SELECT by \<open>ord_no\<close> resolves to rows,
  \<open>GET /orders/{id}\<close> answers 404 with the body \<open>{"message":"Order not found"}\<close> if there
  is no row, and 200 with the first row otherwise.
\<close>

theorem get_order_first_row_or_404:
  assumes "getConnection drv w = Inr w1"
    and "query drv w1 ''SELECT * FROM orders WHERE ord_no = ?'' [Some (JStr (params_id req))]
           = (Inr (Rows rows), w2)"
  shows "get_order drv req w =
           ([Acquired,
             Queried ''SELECT * FROM orders WHERE ord_no = ?'' [Some (JStr (params_id req))],
             Sent (if rows = []
                   then \<lparr>status = 404, content = Json (JObj [(''message'', JStr ''Order not found'')])\<rparr>
                   else \<lparr>status = 200, content = Json (hd rows)\<rparr>),
             Released], conn_end drv w2)"
  using assms by (cases rows) (simp_all add: get_order_def message_def)

text \<open>On the sample store, \<open>/orders/1000\<close> is found and \<open>/orders/7\<close> is not.\<close>

theorem get_order_first_row_or_404_witness:
  "get_order (store_driver plain_schema) (mk_request ''1000'' []) sample_store =
     ([Acquired,
       Queried ''SELECT * FROM orders WHERE ord_no = ?'' [Some (JStr ''1000'')],
       Sent \<lparr>status = 200,
             content = Json (JObj [(''ord_no'', JNum 1000), (''purch_amt'', JNum 20),
                                   (''ord_date'', JStr ''2023-12-31''), (''customer_id'', JStr ''C000'')])\<rparr>,
       Released], sample_store)
   \<and> get_order (store_driver plain_schema) (mk_request ''7'' []) sample_store =
     ([Acquired,
       Queried ''SELECT * FROM orders WHERE ord_no = ?'' [Some (JStr ''7'')],
       Sent \<lparr>status = 404, content = Json (JObj [(''message'', JStr ''Order not found'')])\<rparr>,
       Released], sample_store)"
proof -
  have c: "getConnection (store_driver plain_schema) sample_store =
      Inr (sample_store\<lparr>checked_out := checked_out sample_store + 1\<rparr>)"
    by (rule store_getConnection [OF sample_pool])
  have q1: "query (store_driver plain_schema) (sample_store\<lparr>checked_out := checked_out sample_store + 1\<rparr>)
      ''SELECT * FROM orders WHERE ord_no = ?'' [Some (JStr (params_id (mk_request ''1000'' [])))] =
      (Inr (Rows [row_json row_1000]), sample_store\<lparr>checked_out := checked_out sample_store + 1\<rparr>)"
    by (simp add: store_query_driver store_select_by_ord_no where_ord_no_def plain_schema_def
        mk_request_def sample_store_def row_1000_def)
  have q2: "query (store_driver plain_schema) (sample_store\<lparr>checked_out := checked_out sample_store + 1\<rparr>)
      ''SELECT * FROM orders WHERE ord_no = ?'' [Some (JStr (params_id (mk_request ''7'' [])))] =
      (Inr (Rows []), sample_store\<lparr>checked_out := checked_out sample_store + 1\<rparr>)"
    by (simp add: store_query_driver store_select_by_ord_no where_ord_no_def plain_schema_def
        mk_request_def sample_store_def row_1000_def)
  show ?thesis
    using get_order_first_row_or_404 [OF c q1] get_order_first_row_or_404 [OF c q2]
    by (simp add: store_conn_end mk_request_def row_json_def row_1000_def sample_store_def)
qed

section \<open>Partial update of no row\<close>

lemma patch_order_statuses:
  "Sent r \<in> set (fst (patch_order lib drv req w)) \<Longrightarrow> status r = 200 \<or> status r = 400 \<or> status r = 500"
  by (auto simp: patch_order_def Let_def split: sum.splits prod.splits if_splits)

text \<open>
  C6. When the body passes the rule of \<open>PATCH /orders/{id}\<close>, the pool gives a connection
  and the UPDATE resolves with zero affected rows, the handler answers 200 with the body
  \<open>{"message":"Order updated"}\<close>; and no execution of this handler, on any input, sends
  a 404.
\<close>

theorem patch_order_zero_rows_200:
  assumes "patch_orders_rules lib req = []"
    and "getConnection drv w = Inr w1"
    and "query drv w1 ''UPDATE orders SET purch_amt = ? WHERE ord_no = ?''
           [body req ''purch_amt'', Some (JStr (params_id req))] = (Inr (OkPacket 0 i ws), w2)"
  shows "patch_order lib drv req w =
           ([Acquired,
             Queried ''UPDATE orders SET purch_amt = ? WHERE ord_no = ?''
               [body req ''purch_amt'', Some (JStr (params_id req))],
             Sent \<lparr>status = 200, content = Json (JObj [(''message'', JStr ''Order updated'')])\<rparr>,
             Released], conn_end drv w2)
         \<and> (\<forall>lib' drv' req' w' r.
               Sent r \<in> set (fst (patch_order lib' (drv' :: 'v driver) req' w')) \<longrightarrow> status r \<noteq> 404)"
proof
  show "patch_order lib drv req w =
           ([Acquired,
             Queried ''UPDATE orders SET purch_amt = ? WHERE ord_no = ?''
               [body req ''purch_amt'', Some (JStr (params_id req))],
             Sent \<lparr>status = 200, content = Json (JObj [(''message'', JStr ''Order updated'')])\<rparr>,
             Released], conn_end drv w2)"
    using assms by (simp add: patch_order_def message_def)
next
  show "\<forall>lib' drv' req' w' r.
               Sent r \<in> set (fst (patch_order lib' (drv' :: 'v driver) req' w')) \<longrightarrow> status r \<noteq> 404"
    using patch_order_statuses by fastforce
qed

text \<open>\<open>PATCH /orders/7\<close> on the sample store, which has no order 7.\<close>

theorem patch_order_zero_rows_200_witness:
  "patch_order sample_rules (store_driver plain_schema) (mk_request ''7'' [(''purch_amt'', JNum 200)])
     sample_store =
     ([Acquired,
       Queried ''UPDATE orders SET purch_amt = ? WHERE ord_no = ?'' [Some (JNum 200), Some (JStr ''7'')],
       Sent \<lparr>status = 200, content = Json (JObj [(''message'', JStr ''Order updated'')])\<rparr>,
       Released], sample_store)
   \<and> status \<lparr>status = 200, content = Json (JObj [(''message'', JStr ''Order updated'')])\<rparr> \<noteq> 404"
proof -
  have v: "patch_orders_rules sample_rules (mk_request ''7'' [(''purch_amt'', JNum 200)]) = []"
    by (simp add: patch_orders_rules_def check_optional_def check_def sample_rules_def mk_request_def)
  have c: "getConnection (store_driver plain_schema) sample_store =
      Inr (sample_store\<lparr>checked_out := checked_out sample_store + 1\<rparr>)"
    by (rule store_getConnection [OF sample_pool])
  have q: "query (store_driver plain_schema) (sample_store\<lparr>checked_out := checked_out sample_store + 1\<rparr>)
      ''UPDATE orders SET purch_amt = ? WHERE ord_no = ?''
      [body (mk_request ''7'' [(''purch_amt'', JNum 200)]) ''purch_amt'',
       Some (JStr (params_id (mk_request ''7'' [(''purch_amt'', JNum 200)])))] =
      (Inr (OkPacket 0 (Number 0) 0), sample_store\<lparr>checked_out := checked_out sample_store + 1\<rparr>)"
    by (simp add: store_query_driver store_update_purch_amt where_ord_no_def plain_schema_def
        packet_insertId_def mk_request_def sample_store_def row_1000_def)
  show ?thesis
    using patch_order_zero_rows_200 [OF v c q, THEN conjunct1]
    by (simp add: store_conn_end mk_request_def sample_store_def)
qed

section \<open>Delete twice\<close>

lemma delete_order_on_store:
  assumes "checked_out s < 10"
  shows "delete_order (store_driver sch) req s =
           ([Acquired,
             Queried ''DELETE FROM orders WHERE ord_no = ?'' [Some (JStr (params_id req))],
             Sent \<lparr>status = 200, content = Json (JObj [(''message'', JStr ''Order deleted'')])\<rparr>,
             Released],
            s\<lparr>orders := filter (\<lambda>r. \<not> where_ord_no sch (Some (JStr (params_id req))) r) (orders s)\<rparr>)"
  using assms
  by (simp add: delete_order_def store_getConnection store_query_driver store_delete
      store_conn_end message_def)

text \<open>
  C7. On the store, with a free connection in the pool: \<open>DELETE /orders/{id}\<close> answers
  200 and leaves the store without the rows of that order number; called again on that
  state it answers 200 again and leaves the state as it is.
\<close>

theorem delete_order_idempotent:
  assumes "checked_out s < 10"
    and "s1 = s\<lparr>orders := filter (\<lambda>r. \<not> where_ord_no sch (Some (JStr (params_id req))) r) (orders s)\<rparr>"
  shows "delete_order (store_driver sch) req s =
           ([Acquired,
             Queried ''DELETE FROM orders WHERE ord_no = ?'' [Some (JStr (params_id req))],
             Sent \<lparr>status = 200, content = Json (JObj [(''message'', JStr ''Order deleted'')])\<rparr>,
             Released], s1)
       \<and> delete_order (store_driver sch) req s1 =
           ([Acquired,
             Queried ''DELETE FROM orders WHERE ord_no = ?'' [Some (JStr (params_id req))],
             Sent \<lparr>status = 200, content = Json (JObj [(''message'', JStr ''Order deleted'')])\<rparr>,
             Released], s1)"
proof -
  have "checked_out s1 < 10"
    using assms by simp
  then show ?thesis
    using assms(1) unfolding assms(2)
    by (simp add: delete_order_on_store)
qed

text \<open>\<open>DELETE /orders/1000\<close> twice on the sample store.\<close>

theorem delete_order_idempotent_witness:
  "delete_order (store_driver plain_schema) (mk_request ''1000'' []) sample_store =
     ([Acquired,
       Queried ''DELETE FROM orders WHERE ord_no = ?'' [Some (JStr ''1000'')],
       Sent \<lparr>status = 200, content = Json (JObj [(''message'', JStr ''Order deleted'')])\<rparr>,
       Released], \<lparr>orders = [], customer = [], checked_out = 0\<rparr>)
   \<and> delete_order (store_driver plain_schema) (mk_request ''1000'' [])
       \<lparr>orders = [], customer = [], checked_out = 0\<rparr> =
     ([Acquired,
       Queried ''DELETE FROM orders WHERE ord_no = ?'' [Some (JStr ''1000'')],
       Sent \<lparr>status = 200, content = Json (JObj [(''message'', JStr ''Order deleted'')])\<rparr>,
       Released], \<lparr>orders = [], customer = [], checked_out = 0\<rparr>)"
  using delete_order_idempotent [OF sample_pool refl, of plain_schema "mk_request ''1000'' []"]
  by (simp add: where_ord_no_def plain_schema_def mk_request_def sample_store_def row_1000_def)

section \<open>Replace\<close>



section \<open>The greeting of the request-echo function\<close>

text \<open>
  C9, as the code has it. For every event whose \<open>queryStringParameters\<close> is an object,
  the function returns status 200 and the body \<open>JSON.stringify({ message: "Tanvi says " + k })\<close>,
  where \<open>k\<close> is the \<open>keyword\<close> parameter when it is present and not empty, and the
  placeholder \<open>no keyword provided\<close> when it is absent or the empty string.
\<close>

theorem handler_greeting:
  assumes "queryStringParameters event = Some qs"
  shows "handler event =
           Inr \<lparr>statusCode = 200,
                response_body = JSON_stringify (JObj [(''message'', JStr (''Tanvi says '' @
                  (case qs ''keyword'' of
                     None \<Rightarrow> ''no keyword provided''
                   | Some k \<Rightarrow> if k = [] then ''no keyword provided'' else k)))])\<rparr>"
  using assms by (simp add: handler_def split: option.splits)

text \<open>A keyword, and a query string without one.\<close>

theorem handler_greeting_witness:
  "handler \<lparr>queryStringParameters = Some (map_of [(''keyword'', ''hello'')])\<rparr> =
     Inr \<lparr>statusCode = 200,
          response_body = JSON_stringify (JObj [(''message'', JStr ''Tanvi says hello'')])\<rparr>
   \<and> handler \<lparr>queryStringParameters = Some (map_of [(''page'', ''2'')])\<rparr> =
     Inr \<lparr>statusCode = 200,
          response_body = JSON_stringify (JObj [(''message'', JStr ''Tanvi says no keyword provided'')])\<rparr>"
  using handler_greeting [of "\<lparr>queryStringParameters = Some (map_of [(''keyword'', ''hello'')])\<rparr>"
      "map_of [(''keyword'', ''hello'')]"]
    handler_greeting [of "\<lparr>queryStringParameters = Some (map_of [(''page'', ''2'')])\<rparr>"
      "map_of [(''page'', ''2'')]"]
  by simp

text \<open>
  A keyword that is present and empty (\<open>?keyword=\<close>) is not embedded: the body carries
  the placeholder, not the greeting with the empty keyword.
\<close>

theorem empty_keyword_counterexample:
  "handler \<lparr>queryStringParameters = Some (map_of [(''keyword'', '''')])\<rparr> =
     Inr \<lparr>statusCode = 200,
          response_body = JSON_stringify (JObj [(''message'', JStr ''Tanvi says no keyword provided'')])\<rparr>
   \<and> handler \<lparr>queryStringParameters = Some (map_of [(''keyword'', '''')])\<rparr> \<noteq>
     Inr \<lparr>statusCode = 200,
          response_body = JSON_stringify (JObj [(''message'', JStr (''Tanvi says '' @ ''''))])\<rparr>"
  by (simp add: handler_def)

section \<open>Partial update without the amount\<close>

text \<open>
  C10. When the body of \<open>PATCH /orders/{id}\<close> has no \<open>purch_amt\<close>, on the store with a
  free connection in the pool: validation passes, the handler submits the UPDATE with
  \<open>undefined\<close> bound for \<open>purch_amt\<close>, and every row whose order number matches the path
  id has its \<open>purch_amt\<close> set to NULL; the answer is 200.
\<close>

theorem patch_order_without_purch_amt:
  assumes "body req ''purch_amt'' = None"
    and "checked_out s < 10"
  shows "patch_orders_rules lib req = []
       \<and> patch_order lib (store_driver sch) req s =
           ([Acquired,
             Queried ''UPDATE orders SET purch_amt = ? WHERE ord_no = ?''
               [None, Some (JStr (params_id req))],
             Sent \<lparr>status = 200, content = Json (JObj [(''message'', JStr ''Order updated'')])\<rparr>,
             Released],
            s\<lparr>orders :=
                map (\<lambda>r. if where_ord_no sch (Some (JStr (params_id req))) r
                         then r\<lparr>purch_amt := JNull\<rparr> else r) (orders s)\<rparr>)"
proof -
  have valid: "patch_orders_rules lib req = []"
    using assms(1) by (simp add: patch_orders_rules_def check_optional_def)
  then show ?thesis
    using assms
    by (simp add: patch_order_def Let_def store_getConnection store_query_driver
        store_update_purch_amt store_conn_end message_def)
qed

text \<open>\<open>PATCH /orders/1000\<close> with an empty body on the sample store.\<close>

theorem patch_order_without_purch_amt_witness:
  "patch_order sample_rules (store_driver plain_schema) (mk_request ''1000'' []) sample_store =
     ([Acquired,
       Queried ''UPDATE orders SET purch_amt = ? WHERE ord_no = ?'' [None, Some (JStr ''1000'')],
       Sent \<lparr>status = 200, content = Json (JObj [(''message'', JStr ''Order updated'')])\<rparr>,
       Released],
      \<lparr>orders = [\<lparr>ord_no = JNum 1000, purch_amt = JNull, ord_date = JStr ''2023-12-31'',
                  customer_id = JStr ''C000''\<rparr>],
       customer = [], checked_out = 0\<rparr>)"
proof -
  have b: "body (mk_request ''1000'' []) ''purch_amt'' = None"
    by (simp add: mk_request_def)
  show ?thesis
    using patch_order_without_purch_amt [OF b sample_pool, of sample_rules plain_schema]
    by (simp add: where_ord_no_def plain_schema_def mk_request_def sample_store_def row_1000_def)
qed

end
